theory Spec2Isabelle
  imports Complex_Main "HOL-Library.Word"
begin

section \<open>Python values and exceptions\<close>

text \<open>
  The module is \<^verbatim>\<open>src/plugins/search_plugin/search.py\<close>. Exceptions are values of
  \<open>error\<close>; a function that can raise returns \<open>error + 'a\<close> with \<open>Inl\<close> the exception.

  The text of the module is accepted by Python 2 and by Python 3, and \<^verbatim>\<open>/\<close> means
  different things in the two: on two integers it is floor division in Python 2 and true
  division (a float) in Python 3. The \<open>dialect\<close> says which reading is taken. Floats are
  idealised as exact rationals.
\<close>

datatype error =
    TypeError
  | StructError
  | ZeroDivisionError
  | KeyError
  | AttributeError
  | OperationalError "string"

datatype dialect = Py2 | Py3

text \<open>A Python number: an unbounded integer or a float. \<open>py_mul\<close>, \<open>py_add\<close> and
  \<open>py_div\<close> are \<^verbatim>\<open>*\<close>, \<^verbatim>\<open>+\<close> and \<^verbatim>\<open>/\<close> on numbers; \<^verbatim>\<open>/\<close> raises on a zero divisor.\<close>

datatype pynum = PyInt int | PyFloat rat

fun num_val :: "pynum \<Rightarrow> rat" where
  "num_val (PyInt n) = of_int n"
| "num_val (PyFloat q) = q"

fun py_mul :: "pynum \<Rightarrow> pynum \<Rightarrow> pynum" where
  "py_mul (PyInt a) (PyInt b) = PyInt (a * b)"
| "py_mul a b = PyFloat (num_val a * num_val b)"

fun py_add :: "pynum \<Rightarrow> pynum \<Rightarrow> pynum" where
  "py_add (PyInt a) (PyInt b) = PyInt (a + b)"
| "py_add a b = PyFloat (num_val a + num_val b)"

fun py_div :: "dialect \<Rightarrow> pynum \<Rightarrow> pynum \<Rightarrow> error + pynum" where
  "py_div Py2 (PyInt a) (PyInt b) =
     (if b = 0 then Inl ZeroDivisionError else Inr (PyInt (a div b)))"
| "py_div d a b =
     (if num_val b = 0 then Inl ZeroDivisionError else Inr (PyFloat (num_val a / num_val b)))"

section \<open>The rank function\<close>

text \<open>
  \<^verbatim>\<open>struct.unpack("I"*(len(matchinfo)/4), matchinfo)\<close>: the blob is read as unsigned 32-bit
  integers in the byte order of the machine, which is a parameter. \<open>repeat_count\<close> is
  \<^verbatim>\<open>len(matchinfo)/4\<close> as the factor of \<^verbatim>\<open>"I"*...\<close>: an integer in Python 2, a float in
  Python 3, by which a string cannot be repeated (\<^verbatim>\<open>TypeError\<close>). \<open>struct_unpack_I\<close> raises
  \<^verbatim>\<open>struct.error\<close> unless the blob has four bytes for each \<^verbatim>\<open>I\<close> of the format.
\<close>

type_synonym byte = "8 word"

datatype byteorder = LittleEndian | BigEndian

fun u32_of_bytes :: "byteorder \<Rightarrow> byte \<Rightarrow> byte \<Rightarrow> byte \<Rightarrow> byte \<Rightarrow> int" where
  "u32_of_bytes LittleEndian a b c d = uint a + 256 * (uint b + 256 * (uint c + 256 * uint d))"
| "u32_of_bytes BigEndian a b c d = uint d + 256 * (uint c + 256 * (uint b + 256 * uint a))"

fun unpack_words :: "byteorder \<Rightarrow> byte list \<Rightarrow> int list" where
  "unpack_words bo (a # b # c # d # rest) = u32_of_bytes bo a b c d # unpack_words bo rest"
| "unpack_words bo _ = []"

definition repeat_count :: "dialect \<Rightarrow> nat \<Rightarrow> error + nat" where
  "repeat_count d n = (case d of Py2 \<Rightarrow> Inr (n div 4) | Py3 \<Rightarrow> Inl TypeError)"

definition struct_unpack_I :: "byteorder \<Rightarrow> nat \<Rightarrow> byte list \<Rightarrow> error + int list" where
  "struct_unpack_I bo k blob =
     (if length blob = 4 * k then Inr (unpack_words bo blob) else Inl StructError)"

text \<open>
  \<^verbatim>\<open>sum(x[0]*w/x[1] for x, w in zip(zip(it, it, it), weights) if x[1])\<close>:
  \<open>triples\<close> is \<^verbatim>\<open>zip(it, it, it)\<close> over one shared iterator (an incomplete last group is
  dropped), \<open>rank_sum\<close> is \<^verbatim>\<open>sum\<close> over the filtered generator, starting from the
  integer 0. The divisor is \<^verbatim>\<open>x[1]\<close>, the second value of the triple.
\<close>

fun triples :: "'a list \<Rightarrow> ('a \<times> 'a \<times> 'a) list" where
  "triples (a # b # c # rest) = (a, b, c) # triples rest"
| "triples _ = []"

fun rank_sum :: "dialect \<Rightarrow> ((int \<times> int \<times> int) \<times> pynum) list \<Rightarrow> pynum \<Rightarrow> error + pynum" where
  "rank_sum d [] acc = Inr acc"
| "rank_sum d ((x, w) # rest) acc =
     (if fst (snd x) \<noteq> 0
      then (case py_div d (py_mul (PyInt (fst x)) w) (PyInt (fst (snd x))) of
              Inl e \<Rightarrow> Inl e
            | Inr t \<Rightarrow> rank_sum d rest (py_add acc t))
      else rank_sum d rest acc)"

definition rank :: "dialect \<Rightarrow> byteorder \<Rightarrow> pynum list \<Rightarrow> byte list \<Rightarrow> error + pynum" where
  "rank d bo weights blob =
     (case repeat_count d (length blob) of
        Inl e \<Rightarrow> Inl e
      | Inr k \<Rightarrow>
         (case struct_unpack_I bo k blob of
            Inl e \<Rightarrow> Inl e
          | Inr matchinfo \<Rightarrow> rank_sum d (zip (triples (drop 2 matchinfo)) weights) (PyInt 0)))"

text \<open>The weights \<^verbatim>\<open>(1., .1, 0, 0)\<close> that the property \<open>db\<close> registers \<open>rank\<close> with.\<close>

definition default_weights :: "pynum list" where
  "default_weights = [PyFloat 1, PyFloat (1 / 10), PyInt 0, PyInt 0]"








fun score_of :: "error + pynum \<Rightarrow> rat option" where
  "score_of (Inl e) = None"
| "score_of (Inr r) = Some (num_val r)"


section \<open>Strings\<close>

text \<open>
  Query text is a Python \<^verbatim>\<open>str\<close>; a \<open>char\<close> stands for a code point below 256.
  \<open>py_isspace\<close> lists the code points below 256 on which \<^verbatim>\<open>str.split()\<close> splits.
\<close>

definition py_isspace :: "char \<Rightarrow> bool" where
  "py_isspace c = (of_char c \<in> {9, 10, 11, 12, 13, 28, 29, 30, 31, 32, 133, 160 :: nat})"

text \<open>\<^verbatim>\<open>text.split()\<close>: the maximal runs of non-whitespace, \<open>cur\<close> being the run read so far.\<close>

fun split_from :: "string \<Rightarrow> string \<Rightarrow> string list" where
  "split_from cur [] = (if cur = [] then [] else [cur])"
| "split_from cur (c # cs) =
     (if py_isspace c
      then (if cur = [] then split_from [] cs else cur # split_from [] cs)
      else split_from (cur @ [c]) cs)"

definition py_split :: "string \<Rightarrow> string list" where
  "py_split text = split_from [] text"

text \<open>\<^verbatim>\<open>sep.join(xs)\<close>.\<close>

fun py_join :: "string \<Rightarrow> string list \<Rightarrow> string" where
  "py_join sep [] = []"
| "py_join sep [x] = x"
| "py_join sep (x # y # ys) = x @ sep @ py_join sep (y # ys)"

text \<open>\<^verbatim>\<open>'"{}"'.format(c)\<close>: the name between double quotes.\<close>

definition double_quoted :: "string \<Rightarrow> string" where
  "double_quoted c = [CHR 0x22] @ c @ [CHR 0x22]"

section \<open>Validation of the search settings\<close>

text \<open>
  Project settings are loaded from a document of nested dictionaries, lists and scalars.
  A dictionary is an association list in insertion order (its keys are distinct in a
  well-formed value; lookup takes the first entry of a key).
\<close>

datatype pyval =
    PyNone
  | PyStr string
  | PyNumber int
  | PyList "pyval list"
  | PyDict "(string \<times> pyval) list"

text \<open>\<^verbatim>\<open>obj[key]\<close> with a string key: only a dictionary can answer, with \<^verbatim>\<open>KeyError\<close> when
  the key is absent; every other value raises \<^verbatim>\<open>TypeError\<close>.\<close>

fun subscript :: "pyval \<Rightarrow> string \<Rightarrow> error + pyval" where
  "subscript (PyDict kvs) k = (case map_of kvs k of None \<Rightarrow> Inl KeyError | Some v \<Rightarrow> Inr v)"
| "subscript _ k = Inl TypeError"

text \<open>\<^verbatim>\<open>obj.values()\<close>: only a dictionary has the method.\<close>

fun dict_values :: "pyval \<Rightarrow> error + pyval list" where
  "dict_values (PyDict kvs) = Inr (map snd kvs)"
| "dict_values _ = Inl AttributeError"

text \<open>The loop \<^verbatim>\<open>for layerconfig in settings.values(): columns = layerconfig['columns']\<close>:
  the first exception raised, if any.\<close>

fun check_layerconfigs :: "pyval list \<Rightarrow> error option" where
  "check_layerconfigs [] = None"
| "check_layerconfigs (layerconfig # rest) =
     (case subscript layerconfig ''columns'' of
        Inl e \<Rightarrow> Some e
      | Inr columns \<Rightarrow> check_layerconfigs rest)"

text \<open>\<^verbatim>\<open>except KeyError: return False, {}\<close>; any other exception leaves the function.\<close>

definition on_key_error :: "error \<Rightarrow> error + bool \<times> pyval" where
  "on_key_error e = (if e = KeyError then Inr (False, PyDict []) else Inl e)"

definition valid_search_settings :: "pyval \<Rightarrow> error + bool \<times> pyval" where
  "valid_search_settings settings =
     (case subscript settings ''search'' of
        Inl e \<Rightarrow> on_key_error e
      | Inr settings' \<Rightarrow>
         (case dict_values settings' of
            Inl e \<Rightarrow> on_key_error e
          | Inr layerconfigs \<Rightarrow>
             (case check_layerconfigs layerconfigs of
                Some e \<Rightarrow> on_key_error e
              | None \<Rightarrow> Inr (True, settings'))))"

text \<open>
  The index builder reads a validated configuration as a mapping from layer selector to
  the list of column names under \<^verbatim>\<open>'columns'\<close>. \<open>index_config\<close> reads that mapping off a
  settings value whose entries have this shape.
\<close>

type_synonym indexconfig = "(string \<times> string list) list"

fun str_list :: "pyval list \<Rightarrow> string list option" where
  "str_list [] = Some []"
| "str_list (PyStr s # rest) = map_option ((#) s) (str_list rest)"
| "str_list (_ # rest) = None"

fun entry_columns :: "pyval \<Rightarrow> string list option" where
  "entry_columns (PyDict kvs) =
     (case map_of kvs ''columns'' of Some (PyList cs) \<Rightarrow> str_list cs | _ \<Rightarrow> None)"
| "entry_columns _ = None"

fun index_entries :: "(string \<times> pyval) list \<Rightarrow> indexconfig option" where
  "index_entries [] = Some []"
| "index_entries ((name, v) # rest) =
     (case entry_columns v of
        None \<Rightarrow> None
      | Some cols \<Rightarrow> map_option ((#) (name, cols)) (index_entries rest))"

fun index_config :: "pyval \<Rightarrow> indexconfig option" where
  "index_config (PyDict kvs) = index_entries kvs"
| "index_config _ = None"

text \<open>A layer-entry with a non-empty list of columns, as the data model words it.\<close>

fun nonempty_columns :: "pyval \<Rightarrow> bool" where
  "nonempty_columns (PyDict kvs) =
     (case map_of kvs ''columns'' of Some (PyList (c # cs)) \<Rightarrow> True | _ \<Rightarrow> False)"
| "nonempty_columns _ = False"

fun has_columns_key :: "pyval \<Rightarrow> bool" where
  "has_columns_key (PyDict kvs) = (map_of kvs ''columns'' \<noteq> None)"
| "has_columns_key _ = False"

fun is_dict :: "pyval \<Rightarrow> bool" where
  "is_dict (PyDict kvs) = True"
| "is_dict _ = False"

section \<open>Feature extraction and the index build\<close>

text \<open>
  The layer collaborator (\<^verbatim>\<open>roam.api.utils\<close>, \<^verbatim>\<open>qgis.core\<close>) is outside the module and is a
  parameter: the loaded vector layers in enumeration order, and the lookup of one layer by
  name, where \<open>None\<close> stands for the \<^verbatim>\<open>IndexError\<close> that \<open>get_features\<close> catches.
  \<open>attr_text f field\<close> is \<^verbatim>\<open>str(feature[field])\<close>.
\<close>

record feature =
  feature_id :: int
  attr_text :: "string \<Rightarrow> string"

record layer =
  layer_name :: string
  layer_fields :: "string list"
  layer_features :: "feature list"

record layers_api =
  vector_layers :: "layer list"
  layer_by_name :: "string \<Rightarrow> layer option"

record feature_record =
  rec_id :: int
  rec_layer :: string
  rec_fid :: int
  rec_data :: "(string \<times> string) list"

text \<open>\<^verbatim>\<open>get_columns\<close>: the set of quoted column names of all entries, as a list without
  repetition (the order of a Python set is not specified).\<close>

definition get_columns :: "indexconfig \<Rightarrow> string list" where
  "get_columns indexconfig =
     remdups (concat (map (\<lambda>config. map double_quoted (snd config)) indexconfig))"

text \<open>\<^verbatim>\<open>fields = set(layerfields) & set(configfields)\<close>, in the order of the layer's fields.\<close>

definition matching_fields :: "layer \<Rightarrow> string list \<Rightarrow> string list" where
  "matching_fields l configfields =
     filter (\<lambda>f. f \<in> set configfields) (remdups (layer_fields l))"

definition feature_data :: "string list \<Rightarrow> feature \<Rightarrow> (string \<times> string) list" where
  "feature_data fieldnames f =
     map (\<lambda>field. (double_quoted field, field @ '': '' @ attr_text f field)) fieldnames"

fun data_rows :: "string \<Rightarrow> string list \<Rightarrow> int \<Rightarrow> feature list \<Rightarrow> feature_record list" where
  "data_rows name fieldnames rowid [] = []"
| "data_rows name fieldnames rowid (f # fs) =
     (let data = feature_data fieldnames f
      in if data = [] then data_rows name fieldnames rowid fs
         else \<lparr>rec_id = rowid + 1, rec_layer = name, rec_fid = feature_id f, rec_data = data\<rparr>
              # data_rows name fieldnames (rowid + 1) fs)"

definition get_data :: "layer \<Rightarrow> string list \<Rightarrow> int \<Rightarrow> feature_record list" where
  "get_data l configfields rowid =
     (let fieldnames = matching_fields l configfields
      in if fieldnames = [] then []
         else data_rows (layer_name l) fieldnames rowid (layer_features l))"

text \<open>\<^verbatim>\<open>rowid = count\<close> after every record: the counter after a loop is the id of the last
  record it yielded, or unchanged when it yielded none.\<close>

definition last_id :: "int \<Rightarrow> feature_record list \<Rightarrow> int" where
  "last_id rowid rows = (if rows = [] then rowid else rec_id (last rows))"

fun all_layers_rows :: "string list \<Rightarrow> int \<Rightarrow> layer list \<Rightarrow> feature_record list" where
  "all_layers_rows configfields rowid [] = []"
| "all_layers_rows configfields rowid (l # ls) =
     (let rows = get_data l configfields rowid
      in rows @ all_layers_rows configfields (last_id rowid rows) ls)"

fun features_from :: "layers_api \<Rightarrow> int \<Rightarrow> indexconfig \<Rightarrow> feature_record list" where
  "features_from api rowid [] = []"
| "features_from api rowid ((layername, configfields) # rest) =
     (if layername = ''_all''
      then (let rows = all_layers_rows configfields rowid (vector_layers api)
            in rows @ features_from api (last_id rowid rows) rest)
      else (case layer_by_name api layername of
              None \<Rightarrow> features_from api rowid rest
            | Some l \<Rightarrow>
               (let rows = get_data l configfields rowid
                in rows @ features_from api (last_id rowid rows) rest)))"

definition get_features :: "layers_api \<Rightarrow> indexconfig \<Rightarrow> feature_record list" where
  "get_features api indexconfig = features_from api 0 indexconfig"

text \<open>The statements \<open>build_index\<close> sends to the database, in order.\<close>

datatype statement =
    DropTable string
  | CreateLookupTable
  | CreateFts4 "string list"
  | InsertFeatureinfo int string int
  | InsertSearch int "(string \<times> string) list"

definition insert_row :: "feature_record \<Rightarrow> statement list" where
  "insert_row row =
     [InsertFeatureinfo (rec_id row) (rec_layer row) (rec_fid row),
      InsertSearch (rec_id row) (rec_data row)]"

definition build_index :: "layers_api \<Rightarrow> indexconfig \<Rightarrow> statement list" where
  "build_index api indexconfig =
     [DropTable ''search'', DropTable ''featureinfo'', CreateLookupTable,
      CreateFts4 (get_columns indexconfig)]
     @ concat (map insert_row (get_features api indexconfig))"

text \<open>The columns the full-text table is declared with.\<close>

fun fts_columns :: "statement list \<Rightarrow> string list option" where
  "fts_columns [] = None"
| "fts_columns (CreateFts4 cols # rest) = Some cols"
| "fts_columns (_ # rest) = fts_columns rest"

section \<open>The query engine\<close>

text \<open>
  A row of \<^verbatim>\<open>search JOIN featureinfo\<close> that matches an expression: the three selected
  values, and the match statistics the engine has for the row (\<^verbatim>\<open>matchinfo(search)\<close>,
  which the statement of \<open>search\<close> does not select).
\<close>

record hit =
  hit_layer :: string
  hit_featureid :: int
  hit_snippet :: string
  hit_matchinfo :: "byte list"

text \<open>
  The database is outside the module and is a parameter. \<open>connect_failure\<close> is the
  exception of \<^verbatim>\<open>sqlite3.connect(path)\<close>, if any. \<open>fts_match e\<close> is the engine's answer to
  \<^verbatim>\<open>SELECT ... FROM search JOIN featureinfo ... WHERE search match 'e'\<close> with no limit,
  in the order the engine produces the rows (the statement has no \<^verbatim>\<open>ORDER BY\<close>), or the
  exception it raises. The expression is pasted between single quotes unescaped; a text
  with a single quote in it yields some other statement, which \<open>other_statement\<close> answers.
\<close>

record storage =
  connect_failure :: "string \<Rightarrow> error option"
  fts_match :: "string \<Rightarrow> error + hit list"
  other_statement :: "string \<Rightarrow> error + hit list"

definition sql_text :: "string \<Rightarrow> string" where
  "sql_text search =
     ''SELECT layer, featureid, snippet(search, '[',']') as snippet'' @ [CHR 0x0A]
     @ ''                            FROM search'' @ [CHR 0x0A]
     @ ''                            JOIN featureinfo on search.docid = featureinfo.id'' @ [CHR 0x0A]
     @ ''                            WHERE search match '' @ [CHR 0x27] @ search @ [CHR 0x27]
     @ '' LIMIT 100''"

definition execute_fetchall :: "storage \<Rightarrow> string \<Rightarrow> error + hit list" where
  "execute_fetchall st search =
     (if CHR 0x27 \<in> set search then other_statement st (sql_text search)
      else (case fts_match st search of
              Inl e \<Rightarrow> Inl e
            | Inr rows \<Rightarrow> Inr (take 100 rows)))"

text \<open>An entry of the results view: its text and the data under \<^verbatim>\<open>Qt.UserRole + 1\<close>.\<close>

record item =
  item_text :: string
  item_data :: "(string \<times> int \<times> string) option"

record results_view =
  view_items :: "item list"
  view_enabled :: bool

datatype db_event =
    Connect string
  | CreateFunction string "pynum list"
  | Cursor
  | Execute string
  | Close

record panel =
  dbpath :: "string option"
  fuzzy_checked :: bool
  resultsView :: results_view
  db_log :: "db_event list"

text \<open>The property \<open>db\<close>: \<^verbatim>\<open>sqlite3.connect(self.dbpath)\<close>, which raises \<^verbatim>\<open>TypeError\<close> on
  the initial \<^verbatim>\<open>None\<close>, then the registration of \<open>rank\<close> with the default weights.\<close>

definition db :: "storage \<Rightarrow> panel \<Rightarrow> error + panel" where
  "db st p =
     (case dbpath p of
        None \<Rightarrow> Inl TypeError
      | Some path \<Rightarrow>
         (case connect_failure st path of
            Some e \<Rightarrow> Inl e
          | None \<Rightarrow>
             Inr (p\<lparr>db_log := db_log p @ [Connect path, CreateFunction ''rank'' default_weights]\<rparr>)))"

definition match_expression :: "bool \<Rightarrow> string \<Rightarrow> string" where
  "match_expression fuzzy text =
     (if fuzzy then py_join ''* '' (py_split text) @ ''*'' else text)"

definition item_of :: "hit \<Rightarrow> item" where
  "item_of h =
     \<lparr>item_text = hit_layer h @ [CHR 0x0A] @ '' ''
                  @ map (\<lambda>c. if c = CHR 0x0A then CHR '' '' else c) (hit_snippet h),
      item_data = Some (hit_layer h, hit_featureid h, hit_snippet h)\<rparr>"

text \<open>
  \<open>search\<close> returns the exception that leaves it, if any, and the panel as it is then.
  There is no \<^verbatim>\<open>try\<close> in it.
\<close>

definition search :: "storage \<Rightarrow> panel \<Rightarrow> string \<Rightarrow> error option \<times> panel" where
  "search st p text =
     (case db st p of
        Inl e \<Rightarrow> (Some e, p)
      | Inr p1 \<Rightarrow>
         (let p2 = p1\<lparr>db_log := db_log p1 @ [Cursor],
                      resultsView := \<lparr>view_items = [], view_enabled = False\<rparr>\<rparr>
          in if text = [] then (None, p2)
             else
               (let search = match_expression (fuzzy_checked p2) text;
                    p3 = p2\<lparr>db_log := db_log p2 @ [Execute (sql_text search)]\<rparr>
                in case execute_fetchall st search of
                     Inl e \<Rightarrow> (Some e, p3)
                   | Inr query \<Rightarrow>
                      (let shown = map item_of query;
                           v = (if shown = []
                                then \<lparr>view_items = [\<lparr>item_text = ''No Results'', item_data = None\<rparr>],
                                      view_enabled = False\<rparr>
                                else \<lparr>view_items = shown, view_enabled = True\<rparr>)
                       in (None, p3\<lparr>resultsView := v, db_log := db_log p3 @ [Close]\<rparr>)))))"

text \<open>The result set of a search: the rows behind the entries of the view.\<close>

definition results :: "panel \<Rightarrow> (string \<times> int \<times> string) list" where
  "results p = List.map_filter item_data (view_items (resultsView p))"

definition row_of :: "hit \<Rightarrow> string \<times> int \<times> string" where
  "row_of h = (hit_layer h, hit_featureid h, hit_snippet h)"

definition executed :: "panel \<Rightarrow> string list" where
  "executed p = List.map_filter (\<lambda>ev. case ev of Execute q \<Rightarrow> Some q | _ \<Rightarrow> None) (db_log p)"

definition connections :: "panel \<Rightarrow> string list" where
  "connections p = List.map_filter (\<lambda>ev. case ev of Connect path \<Rightarrow> Some path | _ \<Rightarrow> None) (db_log p)"

text \<open>Relevance of a row as the registered \<open>rank\<close> would compute it, and rows in
  descending order of it.\<close>

definition relevance :: "dialect \<Rightarrow> byteorder \<Rightarrow> hit \<Rightarrow> error + pynum" where
  "relevance d bo h = rank d bo default_weights (hit_matchinfo h)"

fun descending :: "rat option list \<Rightarrow> bool" where
  "descending [] = True"
| "descending [s] = (s \<noteq> None)"
| "descending (s # t # rest) =
     (case (s, t) of (Some a, Some b) \<Rightarrow> b \<le> a \<and> descending (t # rest) | _ \<Rightarrow> False)"

text \<open>Records numbered consecutively after \<open>rowid\<close>, in the order of the list.\<close>

definition numbered_from :: "int \<Rightarrow> feature_record list \<Rightarrow> bool" where
  "numbered_from rowid rows =
     (map rec_id rows = map (\<lambda>k. rowid + 1 + int k) [0..<length rows])"

text \<open>
  Examples: a settings document whose only entry has an empty list of columns, and one
  loaded layer \<open>assets\<close> with the fields \<open>type\<close> and \<open>name\<close> and two features.
\<close>

definition empty_columns_settings :: pyval where
  "empty_columns_settings =
     PyDict [(''search'', PyDict [(''roads'', PyDict [(''columns'', PyList [])])])]"

definition assets_layer :: layer where
  "assets_layer =
     \<lparr>layer_name = ''assets'', layer_fields = [''type'', ''name''],
      layer_features =
        [\<lparr>feature_id = 10, attr_text = (\<lambda>f. if f = ''type'' then ''hydrant'' else ''H1'')\<rparr>,
         \<lparr>feature_id = 11, attr_text = (\<lambda>f. if f = ''type'' then ''valve'' else ''V1'')\<rparr>]\<rparr>"

definition one_layer :: layers_api where
  "one_layer =
     \<lparr>vector_layers = [assets_layer],
      layer_by_name = (\<lambda>name. if name = ''assets'' then Some assets_layer else None)\<rparr>"

text \<open>
  A small index for the examples: two rows match \<^verbatim>\<open>hydrant\<close>, the first with one hit of
  four, the second with three of four; the table is missing in \<open>missing_table\<close>.
\<close>

definition row_a :: hit where
  "row_a = \<lparr>hit_layer = ''assets'', hit_featureid = 1, hit_snippet = ''type: [hydrant]'',
            hit_matchinfo = [1,0,0,0, 1,0,0,0, 1,0,0,0, 4,0,0,0, 2,0,0,0]\<rparr>"

definition row_b :: hit where
  "row_b = \<lparr>hit_layer = ''assets'', hit_featureid = 2, hit_snippet = ''type: [hydrant] [hydrant] [hydrant]'',
            hit_matchinfo = [1,0,0,0, 1,0,0,0, 3,0,0,0, 4,0,0,0, 2,0,0,0]\<rparr>"

definition two_hydrants :: storage where
  "two_hydrants =
     \<lparr>connect_failure = (\<lambda>path. None),
      fts_match = (\<lambda>e. if e = ''hydrant'' \<or> e = ''*'' then Inr [row_a, row_b] else Inr []),
      other_statement = (\<lambda>q. Inl (OperationalError ''syntax error''))\<rparr>"

definition missing_table :: storage where
  "missing_table =
     \<lparr>connect_failure = (\<lambda>path. None),
      fts_match = (\<lambda>e. Inl (OperationalError ''no such table: search'')),
      other_statement = (\<lambda>q. Inl (OperationalError ''no such table: search''))\<rparr>"

definition ready_panel :: panel where
  "ready_panel =
     \<lparr>dbpath = Some ''index.db'', fuzzy_checked = False,
      resultsView = \<lparr>view_items = [], view_enabled = False\<rparr>, db_log = []\<rparr>"

section \<open>Properties of the rank function\<close>






lemma length_unpack_words: "length (unpack_words bo blob) = length blob div 4"
  by (induction bo blob rule: unpack_words.induct) simp_all



lemma rank_Py3_raises: "rank Py3 bo weights blob = Inl TypeError"
  by (simp add: rank_def repeat_count_def)






section \<open>Properties of the query engine\<close>

lemma join_stars:
  "py_join ''* '' (t # ts) @ ''*'' = py_join '' '' (map (\<lambda>t. t @ ''*'') (t # ts))"
  by (induction ts arbitrary: t) simp_all

lemma concat_split_from:
  "concat (split_from cur s) = cur @ filter (\<lambda>c. \<not> py_isspace c) s"
  by (induction cur s rule: split_from.induct) simp_all

lemma tokens_split_from:
  "list_all (\<lambda>c. \<not> py_isspace c) cur \<Longrightarrow>
   list_all (\<lambda>t. t \<noteq> [] \<and> list_all (\<lambda>c. \<not> py_isspace c) t) (split_from cur s)"
  by (induction cur s rule: split_from.induct) simp_all



lemma results_items: "List.map_filter item_data (map item_of rows) = map row_of rows"
  by (induction rows) (simp_all add: item_of_def row_of_def)

lemma db_fuzzy: "db st p = Inr p1 \<Longrightarrow> fuzzy_checked p1 = fuzzy_checked p"
  by (auto simp: db_def split: option.splits)

lemma db_log_opened:
  "db st p = Inr p1 \<Longrightarrow>
   \<exists>path. dbpath p = Some path \<and> connect_failure st path = None
      \<and> db_log p1 = db_log p @ [Connect path, CreateFunction ''rank'' default_weights]"
  by (auto simp: db_def split: option.splits)

lemma executed_append: "List.map_filter f (xs @ ys) = List.map_filter f xs @ List.map_filter f ys"
  by (simp add: List.map_filter_def)

lemma search_open_fails: "db st p = Inl e \<Longrightarrow> search st p text = (Some e, p)"
  by (simp add: search_def)

lemma search_empty_text:
  assumes "db st p = Inr p1"
  shows "search st p [] = (None, p1\<lparr>db_log := db_log p1 @ [Cursor],
                      resultsView := \<lparr>view_items = [], view_enabled = False\<rparr>\<rparr>)"
  using assms by (simp add: search_def)

lemma search_query_fails:
  assumes "db st p = Inr p1" and "text \<noteq> []"
    and "execute_fetchall st (match_expression (fuzzy_checked p) text) = Inl e"
  shows "fst (search st p text) = Some e"
    and "results (snd (search st p text)) = []"
    and "executed (snd (search st p text))
          = executed p @ [sql_text (match_expression (fuzzy_checked p) text)]"
  using assms db_fuzzy [OF assms(1)] db_log_opened [OF assms(1)]
  by (auto simp: search_def Let_def results_def executed_def executed_append)

lemma search_query_succeeds:
  assumes "db st p = Inr p1" and "text \<noteq> []"
    and "execute_fetchall st (match_expression (fuzzy_checked p) text) = Inr rows"
  shows "fst (search st p text) = None"
    and "results (snd (search st p text)) = map row_of rows"
    and "executed (snd (search st p text))
          = executed p @ [sql_text (match_expression (fuzzy_checked p) text)]"
  using assms db_fuzzy [OF assms(1)] db_log_opened [OF assms(1)]
  by (auto simp: search_def Let_def results_def executed_def executed_append
      results_items)

lemma db_opens:
  assumes "dbpath p = Some path" and "connect_failure st path = None"
  shows "db st p = Inr (p\<lparr>db_log := db_log p @ [Connect path, CreateFunction ''rank'' default_weights]\<rparr>)"
  using assms by (simp add: db_def)

lemma set_py_join: "set (py_join sep ts) \<subseteq> set sep \<union> set (concat ts)"
  by (induction sep ts rule: py_join.induct) auto

lemma set_match_expression:
  "set (match_expression fz text) \<subseteq> set text \<union> {CHR ''*'', CHR '' ''}"
proof (cases fz)
  case True
  have "set (concat (py_split text)) \<subseteq> set text"
    by (simp add: py_split_def concat_split_from)
  with set_py_join [of "''* ''" "py_split text"] True show ?thesis
    by (auto simp: match_expression_def)
next
  case False
  then show ?thesis by (auto simp: match_expression_def)
qed

lemma execute_fetchall_limit:
  assumes "CHR 0x27 \<notin> set e" and "execute_fetchall st e = Inr rows"
  shows "length rows \<le> 100"
  using assms by (auto simp: execute_fetchall_def split: sum.splits)

lemma search_limit:
  assumes "CHR 0x27 \<notin> set text" and "fst (search st p text) = None"
  shows "length (results (snd (search st p text))) \<le> 100"
proof (cases "db st p")
  case (Inl e)
  then have "search st p text = (Some e, p)" by (rule search_open_fails)
  with assms(2) show ?thesis by simp
next
  case (Inr p1)
  note opened = this
  show ?thesis
  proof (cases "text = []")
    case True
    with opened show ?thesis by (simp add: search_empty_text results_def)
  next
    case False
    let ?e = "match_expression (fuzzy_checked p) text"
    have nq: "CHR 0x27 \<notin> set ?e"
      using assms(1) set_match_expression [of "fuzzy_checked p" "text"] by auto
    show ?thesis
    proof (cases "execute_fetchall st ?e")
      case (Inl e)
      with opened False show ?thesis by (simp add: search_query_fails)
    next
      case (Inr rows)
      with opened False have "results (snd (search st p text)) = map row_of rows"
        by (simp add: search_query_succeeds)
      with execute_fetchall_limit [OF nq Inr] show ?thesis by simp
    qed
  qed
qed

text \<open>
  C8: with fuzzy matching the text is split on whitespace (the tokens are the non-empty
  whitespace-free runs of the text, in order) and the match expression is the tokens,
  each followed by \<open>*\<close>, separated by single spaces, which the full-text query syntax
  reads as the conjunction of the prefix terms; \<open>main str\<close> becomes \<open>main* str*\<close>.
  Without fuzzy matching the text is the match expression, unchanged.
\<close>

theorem match_expression_fuzzy_prefixes:
  "match_expression False text = text
   \<and> (py_split text \<noteq> [] \<longrightarrow>
        match_expression True text = py_join '' '' (map (\<lambda>t. t @ ''*'') (py_split text)))
   \<and> list_all (\<lambda>t. t \<noteq> [] \<and> list_all (\<lambda>c. \<not> py_isspace c) t) (py_split text)
   \<and> concat (py_split text) = filter (\<lambda>c. \<not> py_isspace c) text
   \<and> match_expression True ''main str'' = ''main* str*''"
proof -
  have a: "match_expression False text = text" by (simp add: match_expression_def)
  have b: "match_expression True text = py_join '' '' (map (\<lambda>t. t @ ''*'') (py_split text))"
    if "py_split text \<noteq> []"
  proof -
    from that obtain t ts where "py_split text = t # ts" by (cases "py_split text") auto
    then show ?thesis using join_stars [of t ts] by (simp add: match_expression_def)
  qed
  have c: "list_all (\<lambda>t. t \<noteq> [] \<and> list_all (\<lambda>c. \<not> py_isspace c) t) (py_split text)"
    unfolding py_split_def by (rule tokens_split_from) simp
  have d: "concat (py_split text) = filter (\<lambda>c. \<not> py_isspace c) text"
    by (simp add: py_split_def concat_split_from)
  have e: "match_expression True ''main str'' = ''main* str*''"
    by (simp add: match_expression_def py_split_def py_isspace_def)
  from a b c d e show ?thesis by blast
qed

text \<open>C8 at the text \<open>main str\<close>, which has two tokens.\<close>

theorem match_expression_fuzzy_prefixes_witness:
  "py_split ''main str'' = [''main'', ''str'']
   \<and> match_expression True ''main str'' = py_join '' '' [''main*'', ''str*'']"
proof -
  have tokens: "py_split ''main str'' = [''main'', ''str'']"
    by (simp add: py_split_def py_isspace_def)
  then have "py_split ''main str'' \<noteq> []" by simp
  with match_expression_fuzzy_prefixes [of "''main str''"]
  have "match_expression True ''main str''
        = py_join '' '' (map (\<lambda>t. t @ ''*'') (py_split ''main str''))" by blast
  with tokens show ?thesis by simp
qed


lemma ready_panel_simps:
  "dbpath ready_panel = Some ''index.db''" "fuzzy_checked ready_panel = False"
  "db_log ready_panel = []" "executed ready_panel = []" "connections ready_panel = []"
  by (simp_all add: ready_panel_def executed_def connections_def)

lemma two_hydrants_simps:
  "connect_failure two_hydrants path = None"
  "fts_match two_hydrants ''*'' = Inr [row_a, row_b]"
  "fts_match two_hydrants ''hydrant'' = Inr [row_a, row_b]"
  by (simp_all add: two_hydrants_def)

lemma missing_table_simps:
  "connect_failure missing_table path = None"
  "fts_match missing_table e = Inl (OperationalError ''no such table: search'')"
  by (simp_all add: missing_table_def)


text \<open>
  C3, as stated, on an index file without the \<open>search\<close> table: the failure of the query
  leaves \<open>search\<close> as an exception.
\<close>

theorem search_propagates_missing_table_counterexample:
  "fst (search missing_table ready_panel ''hydrant'')
     = Some (OperationalError ''no such table: search'')"
proof -
  have opened: "db missing_table ready_panel
        = Inr (ready_panel\<lparr>db_log := db_log ready_panel
                 @ [Connect ''index.db'', CreateFunction ''rank'' default_weights]\<rparr>)"
    by (rule db_opens) (simp_all add: ready_panel_simps missing_table_simps)
  have q: "execute_fetchall missing_table
       (match_expression (fuzzy_checked ready_panel) ''hydrant'')
     = Inl (OperationalError ''no such table: search'')"
    by (simp add: execute_fetchall_def match_expression_def ready_panel_simps missing_table_simps)
  show ?thesis
    by (rule search_query_fails(1) [OF opened _ q]) simp
qed

text \<open>
  C3, amended: \<open>search\<close> handles no exception. When the connection cannot be opened the
  exception leaves \<open>search\<close> with the panel untouched; when the statement fails the
  exception leaves \<open>search\<close> with the results view cleared.
\<close>

theorem search_failure_propagates:
  "(db st p = Inl e \<longrightarrow> search st p text = (Some e, p))
   \<and> (dbpath p = Some path \<and> connect_failure st path = None \<and> text \<noteq> []
        \<and> execute_fetchall st (match_expression (fuzzy_checked p) text) = Inl e
      \<longrightarrow> fst (search st p text) = Some e \<and> results (snd (search st p text)) = [])"
proof (intro conjI impI)
  assume "db st p = Inl e"
  then show "search st p text = (Some e, p)" by (rule search_open_fails)
next
  assume h: "dbpath p = Some path \<and> connect_failure st path = None \<and> text \<noteq> []
        \<and> execute_fetchall st (match_expression (fuzzy_checked p) text) = Inl e"
  then have opened: "db st p = Inr (p\<lparr>db_log := db_log p
        @ [Connect path, CreateFunction ''rank'' default_weights]\<rparr>)"
    by (simp add: db_opens)
  from h have t: "text \<noteq> []"
    and f: "execute_fetchall st (match_expression (fuzzy_checked p) text) = Inl e" by simp_all
  show "fst (search st p text) = Some e" by (rule search_query_fails(1) [OF opened t f])
  show "results (snd (search st p text)) = []" by (rule search_query_fails(2) [OF opened t f])
qed

text \<open>C3, amended, at a panel with no index path yet and at an index without the table.\<close>

theorem search_failure_propagates_witness:
  "db missing_table (ready_panel\<lparr>dbpath := None\<rparr>) = Inl TypeError
   \<and> search missing_table (ready_panel\<lparr>dbpath := None\<rparr>) ''hydrant''
       = (Some TypeError, ready_panel\<lparr>dbpath := None\<rparr>)
   \<and> dbpath ready_panel = Some ''index.db''
   \<and> connect_failure missing_table ''index.db'' = None
   \<and> ''hydrant'' \<noteq> []
   \<and> execute_fetchall missing_table (match_expression (fuzzy_checked ready_panel) ''hydrant'')
       = Inl (OperationalError ''no such table: search'')
   \<and> fst (search missing_table ready_panel ''hydrant'')
       = Some (OperationalError ''no such table: search'')
   \<and> results (snd (search missing_table ready_panel ''hydrant'')) = []"
proof -
  let ?q = "ready_panel\<lparr>dbpath := None\<rparr>"
  have a: "db missing_table ?q = Inl TypeError" by (simp add: db_def)
  have b: "dbpath ready_panel = Some ''index.db''" by (rule ready_panel_simps)
  have c: "connect_failure missing_table ''index.db'' = None" by (rule missing_table_simps)
  have d: "''hydrant'' \<noteq> []" by simp
  have e: "execute_fetchall missing_table
       (match_expression (fuzzy_checked ready_panel) ''hydrant'')
     = Inl (OperationalError ''no such table: search'')"
    by (simp add: execute_fetchall_def match_expression_def ready_panel_simps missing_table_simps)
  from search_failure_propagates [of missing_table ?q TypeError "''hydrant''"] a
  have r1: "search missing_table ?q ''hydrant'' = (Some TypeError, ?q)" by blast
  from search_failure_propagates [of missing_table ready_panel
      "OperationalError ''no such table: search''" "''hydrant''" "''index.db''"] b c d e
  have r2: "fst (search missing_table ready_panel ''hydrant'')
              = Some (OperationalError ''no such table: search'')
            \<and> results (snd (search missing_table ready_panel ''hydrant'')) = []" by blast
  from a r1 b c d e r2 show ?thesis by (intro conjI) simp_all
qed

text \<open>
  C4, as stated, at a panel with a built index: for the empty text a connection is
  opened, \<open>rank\<close> is registered and a cursor is created.
\<close>

theorem empty_text_opens_connection_counterexample:
  "connections ready_panel = []
   \<and> connections (snd (search two_hydrants ready_panel [])) = [''index.db'']
   \<and> db_log (snd (search two_hydrants ready_panel []))
       = [Connect ''index.db'', CreateFunction ''rank'' default_weights, Cursor]"
proof -
  have "db two_hydrants ready_panel
        = Inr (ready_panel\<lparr>db_log := db_log ready_panel
                 @ [Connect ''index.db'', CreateFunction ''rank'' default_weights]\<rparr>)"
    by (rule db_opens) (simp_all add: ready_panel_simps two_hydrants_simps)
  then show ?thesis
    by (simp add: search_empty_text ready_panel_simps connections_def)
qed

text \<open>
  C4, amended: for the empty text, when the connection opens, \<open>search\<close> returns with an
  empty result set and executes no statement; before the test of the text it has opened
  a connection, registered \<open>rank\<close> and created a cursor, and the connection is not closed.
\<close>

theorem empty_text_runs_no_query:
  assumes "dbpath p = Some path" and "connect_failure st path = None"
  shows "fst (search st p []) = None
         \<and> results (snd (search st p [])) = []
         \<and> executed (snd (search st p [])) = executed p
         \<and> db_log (snd (search st p []))
             = db_log p @ [Connect path, CreateFunction ''rank'' default_weights, Cursor]"
  using db_opens [OF assms]
  by (simp add: search_empty_text results_def executed_def executed_append)

text \<open>C4, amended, at a panel with a built index.\<close>

theorem empty_text_runs_no_query_witness:
  "dbpath ready_panel = Some ''index.db''
   \<and> connect_failure two_hydrants ''index.db'' = None
   \<and> fst (search two_hydrants ready_panel []) = None
   \<and> results (snd (search two_hydrants ready_panel [])) = []
   \<and> executed (snd (search two_hydrants ready_panel [])) = []
   \<and> db_log (snd (search two_hydrants ready_panel []))
       = [Connect ''index.db'', CreateFunction ''rank'' default_weights, Cursor]"
proof -
  have a: "dbpath ready_panel = Some ''index.db''" by (rule ready_panel_simps)
  have b: "connect_failure two_hydrants ''index.db'' = None" by (rule two_hydrants_simps)
  from empty_text_runs_no_query [OF a b] a b show ?thesis
    by (simp add: ready_panel_simps)
qed

lemma relevance_rows:
  "relevance Py2 LittleEndian row_a = Inr (PyFloat (1 / 4))"
  "relevance Py2 LittleEndian row_b = Inr (PyFloat (3 / 4))"
  by (simp_all add: relevance_def rank_def repeat_count_def struct_unpack_I_def
      default_weights_def row_a_def row_b_def)

lemma relevance_Py3: "relevance Py3 bo h = Inl TypeError"
  by (simp add: relevance_def rank_Py3_raises)

text \<open>
  C2 at an index where the engine produces the row of lower relevance first: \<open>search\<close>
  shows the rows in the engine's order, which is ascending in the relevance that \<open>rank\<close>
  computes with the default weights; the statement has no \<^verbatim>\<open>ORDER BY\<close> and \<open>rank\<close>,
  though registered, is not called.
\<close>

theorem search_keeps_engine_order:
  "results (snd (search two_hydrants ready_panel ''hydrant'')) = [row_of row_a, row_of row_b]
   \<and> map (\<lambda>h. score_of (relevance Py2 LittleEndian h)) [row_a, row_b] = [Some (1 / 4), Some (3 / 4)]
   \<and> \<not> descending (map (\<lambda>h. score_of (relevance Py2 LittleEndian h)) [row_a, row_b])
   \<and> \<not> descending (map (\<lambda>h. score_of (relevance Py3 LittleEndian h)) [row_a, row_b])"
proof -
  have opened: "db two_hydrants ready_panel
        = Inr (ready_panel\<lparr>db_log := db_log ready_panel
                 @ [Connect ''index.db'', CreateFunction ''rank'' default_weights]\<rparr>)"
    by (rule db_opens) (simp_all add: ready_panel_simps two_hydrants_simps)
  have q: "execute_fetchall two_hydrants (match_expression (fuzzy_checked ready_panel) ''hydrant'')
           = Inr [row_a, row_b]"
    by (simp add: execute_fetchall_def match_expression_def ready_panel_simps two_hydrants_simps)
  have "results (snd (search two_hydrants ready_panel ''hydrant'')) = map row_of [row_a, row_b]"
    by (rule search_query_succeeds(2) [OF opened _ q]) simp
  then show ?thesis
    by (simp add: relevance_rows relevance_Py3)
qed

section \<open>Properties of the settings validation and of the index build\<close>

lemma check_layerconfigs_dicts:
  "list_all is_dict vs \<Longrightarrow>
   check_layerconfigs vs = (if list_all has_columns_key vs then None else Some KeyError)"
proof (induction vs)
  case Nil
  then show ?case by simp
next
  case (Cons v vs)
  then obtain kvs where "v = PyDict kvs" by (cases v) simp_all
  with Cons show ?case by (cases "map_of kvs ''columns''") simp_all
qed

text \<open>
  C5, as stated, at settings whose only layer-entry has an empty list of columns: the
  entry has no non-empty \<open>columns\<close> list, and the configuration is accepted.
\<close>

theorem valid_search_settings_accepts_empty_columns_counterexample:
  "valid_search_settings empty_columns_settings
     = Inr (True, PyDict [(''roads'', PyDict [(''columns'', PyList [])])])
   \<and> \<not> nonempty_columns (PyDict [(''columns'', PyList [])])"
  by (simp add: valid_search_settings_def empty_columns_settings_def)

text \<open>
  C5, amended: settings without a \<open>search\<close> section are reported invalid; settings
  whose \<open>search\<close> section is a dictionary of dictionaries are accepted if and only if
  every layer-entry has a \<open>columns\<close> key, whatever its value; when any entry lacks the
  key the whole configuration is reported invalid, with the empty configuration, whose
  union of indexed fields is empty.
\<close>

theorem valid_search_settings_checks_columns_key:
  "(map_of doc ''search'' = None \<longrightarrow>
      valid_search_settings (PyDict doc) = Inr (False, PyDict []))
   \<and> (map_of doc ''search'' = Some (PyDict entries) \<and> list_all is_dict (map snd entries) \<longrightarrow>
      valid_search_settings (PyDict doc)
        = Inr (if list_all has_columns_key (map snd entries)
               then (True, PyDict entries) else (False, PyDict [])))
   \<and> map_option get_columns (index_config (PyDict [])) = Some []"
proof (intro conjI impI)
  assume "map_of doc ''search'' = None"
  then show "valid_search_settings (PyDict doc) = Inr (False, PyDict [])"
    by (simp add: valid_search_settings_def on_key_error_def)
next
  assume "map_of doc ''search'' = Some (PyDict entries) \<and> list_all is_dict (map snd entries)"
  then show "valid_search_settings (PyDict doc)
        = Inr (if list_all has_columns_key (map snd entries)
               then (True, PyDict entries) else (False, PyDict []))"
    by (simp add: valid_search_settings_def on_key_error_def check_layerconfigs_dicts)
next
  show "map_option get_columns (index_config (PyDict [])) = Some []"
    by (simp add: get_columns_def)
qed

text \<open>C5, amended, at settings with no \<open>search\<close> section, with an entry whose list of
  columns is empty, and with an entry that lacks \<open>columns\<close>.\<close>

theorem valid_search_settings_checks_columns_key_witness:
  "map_of [(''title'', PyStr ''demo'')] ''search'' = None
   \<and> valid_search_settings (PyDict [(''title'', PyStr ''demo'')]) = Inr (False, PyDict [])
   \<and> map_of [(''search'', PyDict [(''roads'', PyDict [(''columns'', PyList [])])])] ''search''
        = Some (PyDict [(''roads'', PyDict [(''columns'', PyList [])])])
   \<and> list_all is_dict (map snd [(''roads'', PyDict [(''columns'', PyList [])])])
   \<and> valid_search_settings (PyDict [(''search'', PyDict [(''roads'', PyDict [(''columns'', PyList [])])])])
        = Inr (True, PyDict [(''roads'', PyDict [(''columns'', PyList [])])])
   \<and> map_of [(''search'', PyDict [(''roads'', PyDict [(''columns'', PyList [PyStr ''name''])]),
                                  (''rails'', PyDict [(''cols'', PyList [PyStr ''name''])])])] ''search''
        = Some (PyDict [(''roads'', PyDict [(''columns'', PyList [PyStr ''name''])]),
                        (''rails'', PyDict [(''cols'', PyList [PyStr ''name''])])])
   \<and> list_all is_dict (map snd [(''roads'', PyDict [(''columns'', PyList [PyStr ''name''])]),
                                 (''rails'', PyDict [(''cols'', PyList [PyStr ''name''])])])
   \<and> valid_search_settings
        (PyDict [(''search'', PyDict [(''roads'', PyDict [(''columns'', PyList [PyStr ''name''])]),
                                     (''rails'', PyDict [(''cols'', PyList [PyStr ''name''])])])])
        = Inr (False, PyDict [])"
proof -
  let ?t1 = "[(''title'', PyStr ''demo'')]"
  let ?e2 = "[(''roads'', PyDict [(''columns'', PyList [])])]"
  let ?e3 = "[(''roads'', PyDict [(''columns'', PyList [PyStr ''name''])]),
              (''rails'', PyDict [(''cols'', PyList [PyStr ''name''])])]"
  have a1: "map_of ?t1 ''search'' = None" by simp
  have a2: "map_of [(''search'', PyDict ?e2)] ''search'' = Some (PyDict ?e2)" by simp
  have b2: "list_all is_dict (map snd ?e2)" by simp
  have a3: "map_of [(''search'', PyDict ?e3)] ''search'' = Some (PyDict ?e3)" by simp
  have b3: "list_all is_dict (map snd ?e3)" by simp
  from valid_search_settings_checks_columns_key [of ?t1] a1
  have r1: "valid_search_settings (PyDict ?t1) = Inr (False, PyDict [])" by blast
  from valid_search_settings_checks_columns_key [of "[(''search'', PyDict ?e2)]" ?e2] a2 b2
  have "valid_search_settings (PyDict [(''search'', PyDict ?e2)])
        = Inr (if list_all has_columns_key (map snd ?e2)
               then (True, PyDict ?e2) else (False, PyDict []))" by blast
  then have r2: "valid_search_settings (PyDict [(''search'', PyDict ?e2)]) = Inr (True, PyDict ?e2)"
    by simp
  from valid_search_settings_checks_columns_key [of "[(''search'', PyDict ?e3)]" ?e3] a3 b3
  have "valid_search_settings (PyDict [(''search'', PyDict ?e3)])
        = Inr (if list_all has_columns_key (map snd ?e3)
               then (True, PyDict ?e3) else (False, PyDict []))" by blast
  then have r3: "valid_search_settings (PyDict [(''search'', PyDict ?e3)]) = Inr (False, PyDict [])"
    by simp
  from a1 r1 a2 b2 r2 a3 b3 r3 show ?thesis by (intro conjI)
qed

lemma numbered_from_Nil: "numbered_from rowid []"
  by (simp add: numbered_from_def)

lemma numbered_from_Cons:
  assumes "rec_id r = rowid + 1" and "numbered_from (rowid + 1) rs"
  shows "numbered_from rowid (r # rs)"
proof -
  have "map (\<lambda>k. rowid + 1 + int k) [0..<Suc (length rs)]
        = (rowid + 1) # map (\<lambda>k. rowid + 1 + 1 + int k) [0..<length rs]"
    by (simp add: map_upt_Suc add.assoc del: upt_Suc)
  with assms show ?thesis by (simp add: numbered_from_def del: upt_Suc)
qed

lemma numbered_from_append:
  assumes "numbered_from rowid xs" and "numbered_from (rowid + int (length xs)) ys"
  shows "numbered_from rowid (xs @ ys)"
proof -
  let ?m = "length xs" and ?n = "length ys"
  have split: "[0..<?m + ?n] = [0..<?m] @ [?m..<?m + ?n]"
    by (rule upt_add_eq_append) simp
  have shift: "[?m..<?m + ?n] = map (\<lambda>k. k + ?m) [0..<?n]"
    using map_add_upt [of ?m ?n] by (simp only: add.commute [of ?n ?m])
  have "map (\<lambda>k. rowid + 1 + int k) [?m..<?m + ?n]
        = map (\<lambda>k. rowid + int ?m + 1 + int k) [0..<?n]"
    unfolding shift by (simp add: comp_def)
  then have "map (\<lambda>k. rowid + 1 + int k) [0..<length (xs @ ys)]
        = map (\<lambda>k. rowid + 1 + int k) [0..<?m]
          @ map (\<lambda>k. rowid + int ?m + 1 + int k) [0..<?n]"
    unfolding length_append split by simp
  with assms show ?thesis by (simp add: numbered_from_def)
qed

lemma last_id_numbered:
  assumes "numbered_from rowid rows"
  shows "last_id rowid rows = rowid + int (length rows)"
proof (cases "rows = []")
  case True
  then show ?thesis by (simp add: last_id_def)
next
  case False
  then have "rec_id (last rows) = last (map rec_id rows)" by (simp add: last_map)
  also have "\<dots> = last (map (\<lambda>k. rowid + 1 + int k) [0..<length rows])"
    using assms by (simp add: numbered_from_def)
  also have "\<dots> = rowid + 1 + int (length rows - 1)"
    using False by (simp add: last_map)
  finally show ?thesis using False by (simp add: last_id_def of_nat_diff Suc_leI)
qed

lemma data_rows_numbered: "numbered_from rowid (data_rows name flds rowid fs)"
proof (induction fs arbitrary: rowid)
  case Nil
  then show ?case by (simp add: numbered_from_Nil)
next
  case (Cons f fs)
  show ?case
  proof (cases "feature_data flds f = []")
    case True
    with Cons show ?thesis by simp
  next
    case False
    with Cons [of "rowid + 1"] show ?thesis
      by (simp add: numbered_from_Cons)
  qed
qed

lemma get_data_numbered: "numbered_from rowid (get_data l configfields rowid)"
  by (simp add: get_data_def Let_def numbered_from_Nil data_rows_numbered)

lemma all_layers_rows_numbered:
  "numbered_from rowid (all_layers_rows configfields rowid ls)"
proof (induction ls arbitrary: rowid)
  case Nil
  then show ?case by (simp add: numbered_from_Nil)
next
  case (Cons l ls)
  let ?rows = "get_data l configfields rowid"
  have a: "numbered_from rowid ?rows" by (rule get_data_numbered)
  have "numbered_from (rowid + int (length ?rows))
          (all_layers_rows configfields (rowid + int (length ?rows)) ls)"
    by (rule Cons.IH)
  with a show ?case
    by (simp add: Let_def last_id_numbered numbered_from_append)
qed

lemma features_from_numbered: "numbered_from rowid (features_from api rowid indexconfig)"
proof (induction api rowid indexconfig rule: features_from.induct)
  case (1 api rowid)
  then show ?case by (simp add: numbered_from_Nil)
next
  case (2 api rowid layername configfields rest)
  show ?case
  proof (cases "layername = ''_all''")
    case True
    let ?rows = "all_layers_rows configfields rowid (vector_layers api)"
    have a: "numbered_from rowid ?rows" by (rule all_layers_rows_numbered)
    have "numbered_from (last_id rowid ?rows) (features_from api (last_id rowid ?rows) rest)"
      using "2.IH"(1) [OF True refl] .
    with a True show ?thesis
      by (simp add: Let_def last_id_numbered numbered_from_append)
  next
    case False
    show ?thesis
    proof (cases "layer_by_name api layername")
      case None
      with False "2.IH"(2) [OF False None] show ?thesis by simp
    next
      case (Some l)
      let ?rows = "get_data l configfields rowid"
      have a: "numbered_from rowid ?rows" by (rule get_data_numbered)
      have "numbered_from (last_id rowid ?rows) (features_from api (last_id rowid ?rows) rest)"
        using "2.IH"(3) [OF False Some refl] .
      with a False Some show ?thesis
        by (simp add: Let_def last_id_numbered numbered_from_append)
    qed
  qed
qed

lemma upto_from_one: "map (\<lambda>k. 1 + int k) [0..<n] = [1..int n]"
proof (induction n)
  case 0
  then show ?case by simp
next
  case (Suc n)
  have "[1..int (Suc n)] = [1..int n] @ [int n + 1]"
    by (simp add: upto_rec2 add.commute)
  with Suc show ?case by simp
qed

lemma sorted_wrt_upto: "sorted_wrt (<) [i..j]"
  by (simp add: sorted_wrt_iff_nth_less)

text \<open>
  C6: the ids of the records of one build, in the order they are emitted (entry by
  entry; for the all-layers entry layer by layer; within a layer feature by feature), are
  \<open>1, 2, ..., n\<close>: one counter is shared by all entries, and the ids are strictly
  increasing and distinct.
\<close>

theorem synthetic_ids_strictly_increasing:
  "map rec_id (get_features api indexconfig) = [1..int (length (get_features api indexconfig))]
   \<and> sorted_wrt (<) (map rec_id (get_features api indexconfig))
   \<and> distinct (map rec_id (get_features api indexconfig))"
proof -
  have "numbered_from 0 (get_features api indexconfig)"
    unfolding get_features_def by (rule features_from_numbered)
  then have ids: "map rec_id (get_features api indexconfig)
                  = [1..int (length (get_features api indexconfig))]"
    by (simp add: numbered_from_def upto_from_one)
  then show ?thesis by (simp add: sorted_wrt_upto)
qed

lemma last_id_append: "last_id rowid (xs @ ys) = last_id (last_id rowid xs) ys"
  by (simp add: last_id_def)

lemma features_from_append:
  "features_from api rowid (xs @ ys)
   = features_from api rowid xs
     @ features_from api (last_id rowid (features_from api rowid xs)) ys"
proof (induction api rowid xs rule: features_from.induct)
  case (1 api rowid)
  then show ?case by (simp add: last_id_def)
next
  case (2 api rowid layername configfields rest)
  show ?case
  proof (cases "layername = ''_all''")
    case True
    with "2.IH"(1) [OF True refl] show ?thesis
      by (simp add: Let_def last_id_append)
  next
    case False
    show ?thesis
    proof (cases "layer_by_name api layername")
      case None
      with False "2.IH"(2) [OF False None] show ?thesis by simp
    next
      case (Some l)
      with False "2.IH"(3) [OF False Some refl] show ?thesis
        by (simp add: Let_def last_id_append)
    qed
  qed
qed

text \<open>
  C9: an entry whose selector is a name that resolves to no loaded layer contributes no
  record and raises nothing: the build emits exactly the records, ids included, that it
  emits for the configuration without that entry.
\<close>

theorem unresolved_layer_is_skipped:
  assumes "layername \<noteq> ''_all''" and "layer_by_name api layername = None"
  shows "get_features api (before @ (layername, configfields) # after)
         = get_features api (before @ after)"
proof -
  have "features_from api rowid ((layername, configfields) # after)
        = features_from api rowid after" for rowid
    using assms by simp
  then show ?thesis
    by (simp add: get_features_def features_from_append)
qed

lemma assets_rows:
  "get_features one_layer [(''assets'', [''type'', ''owner''])]
   = [\<lparr>rec_id = 1, rec_layer = ''assets'', rec_fid = 10,
       rec_data = [(double_quoted ''type'', ''type: hydrant'')]\<rparr>,
      \<lparr>rec_id = 2, rec_layer = ''assets'', rec_fid = 11,
       rec_data = [(double_quoted ''type'', ''type: valve'')]\<rparr>]"
  by (simp add: get_features_def one_layer_def assets_layer_def get_data_def matching_fields_def
      feature_data_def last_id_def Let_def)

text \<open>C9 at a configuration that names a missing layer before the layer \<open>assets\<close>.\<close>

theorem unresolved_layer_is_skipped_witness:
  "''missing'' \<noteq> ''_all''
   \<and> layer_by_name one_layer ''missing'' = None
   \<and> get_features one_layer [(''missing'', [''name'']), (''assets'', [''type'', ''owner''])]
       = [\<lparr>rec_id = 1, rec_layer = ''assets'', rec_fid = 10,
           rec_data = [(double_quoted ''type'', ''type: hydrant'')]\<rparr>,
          \<lparr>rec_id = 2, rec_layer = ''assets'', rec_fid = 11,
           rec_data = [(double_quoted ''type'', ''type: valve'')]\<rparr>]"
proof -
  have a: "''missing'' \<noteq> ''_all''" by simp
  have b: "layer_by_name one_layer ''missing'' = None" by (simp add: one_layer_def)
  from unresolved_layer_is_skipped [OF a b, of "[]" "[''name'']" "[(''assets'', [''type'', ''owner''])]"]
  have "get_features one_layer [(''missing'', [''name'']), (''assets'', [''type'', ''owner''])]
        = get_features one_layer [(''assets'', [''type'', ''owner''])]" by simp
  with a b show ?thesis by (simp only: assets_rows simp_thms)
qed

lemma inj_double_quoted: "inj double_quoted"
  by (rule injI) (simp add: double_quoted_def)

lemma set_get_columns:
  "set (get_columns indexconfig) = double_quoted ` (\<Union>config\<in>set indexconfig. set (snd config))"
  by (auto simp: get_columns_def)

lemma keys_feature_data: "fst ` set (feature_data flds f) = double_quoted ` set flds"
  by (auto simp: feature_data_def image_iff)

lemma keys_data_rows:
  "row \<in> set (data_rows name flds rowid fs) \<Longrightarrow>
   fst ` set (rec_data row) = double_quoted ` set flds"
proof (induction fs arbitrary: rowid)
  case Nil
  then show ?case by simp
next
  case (Cons f fs)
  show ?case
  proof (cases "feature_data flds f = []")
    case True
    with Cons.prems have "row \<in> set (data_rows name flds rowid fs)" by simp
    then show ?thesis by (rule Cons.IH)
  next
    case False
    with Cons.prems have "rec_data row = feature_data flds f
        \<or> row \<in> set (data_rows name flds (rowid + 1) fs)"
      by (auto simp: Let_def)
    then show ?thesis
    proof
      assume "rec_data row = feature_data flds f"
      then show ?thesis by (simp only: keys_feature_data)
    next
      assume "row \<in> set (data_rows name flds (rowid + 1) fs)"
      then show ?thesis by (rule Cons.IH)
    qed
  qed
qed

lemma keys_get_data:
  assumes "row \<in> set (get_data l configfields rowid)"
  shows "fst ` set (rec_data row) = double_quoted ` (set (layer_fields l) \<inter> set configfields)"
proof -
  have fields: "set (matching_fields l configfields) = set (layer_fields l) \<inter> set configfields"
    by (auto simp: matching_fields_def)
  from assms have "row \<in> set (data_rows (layer_name l) (matching_fields l configfields) rowid
                               (layer_features l))"
    by (simp add: get_data_def Let_def split: if_splits)
  from keys_data_rows [OF this] show ?thesis by (simp only: fields)
qed

lemma keys_all_layers_rows:
  "row \<in> set (all_layers_rows configfields rowid ls) \<Longrightarrow>
   fst ` set (rec_data row) \<subseteq> double_quoted ` set configfields"
proof (induction ls arbitrary: rowid)
  case Nil
  then show ?case by simp
next
  case (Cons l ls)
  from Cons.prems have "row \<in> set (get_data l configfields rowid)
      \<or> row \<in> set (all_layers_rows configfields (last_id rowid (get_data l configfields rowid)) ls)"
    by (simp add: Let_def)
  then show ?case
  proof
    assume "row \<in> set (get_data l configfields rowid)"
    from keys_get_data [OF this] show ?thesis by auto
  next
    assume "row \<in> set (all_layers_rows configfields (last_id rowid (get_data l configfields rowid)) ls)"
    then show ?thesis by (rule Cons.IH)
  qed
qed

lemma keys_features_from:
  "row \<in> set (features_from api rowid indexconfig) \<Longrightarrow>
   fst ` set (rec_data row) \<subseteq> set (get_columns indexconfig)"
proof (induction api rowid indexconfig rule: features_from.induct)
  case (1 api rowid)
  then show ?case by simp
next
  case (2 api rowid layername configfields rest)
  have here: "double_quoted ` set configfields
              \<subseteq> set (get_columns ((layername, configfields) # rest))"
    by (auto simp: set_get_columns)
  have later: "set (get_columns rest) \<subseteq> set (get_columns ((layername, configfields) # rest))"
    by (auto simp: set_get_columns)
  show ?case
  proof (cases "layername = ''_all''")
    case True
    let ?rows = "all_layers_rows configfields rowid (vector_layers api)"
    from "2.prems" True have "row \<in> set ?rows
        \<or> row \<in> set (features_from api (last_id rowid ?rows) rest)"
      by (simp add: Let_def)
    then show ?thesis
    proof
      assume "row \<in> set ?rows"
      from keys_all_layers_rows [OF this] here show ?thesis by blast
    next
      assume "row \<in> set (features_from api (last_id rowid ?rows) rest)"
      from "2.IH"(1) [OF True refl this] later show ?thesis by blast
    qed
  next
    case False
    show ?thesis
    proof (cases "layer_by_name api layername")
      case None
      with "2.prems" False have "row \<in> set (features_from api rowid rest)" by simp
      from "2.IH"(2) [OF False None this] later show ?thesis by blast
    next
      case (Some l)
      let ?rows = "get_data l configfields rowid"
      from "2.prems" False Some have "row \<in> set ?rows
          \<or> row \<in> set (features_from api (last_id rowid ?rows) rest)"
        by (simp add: Let_def)
      then show ?thesis
      proof
        assume "row \<in> set ?rows"
        from keys_get_data [OF this] here show ?thesis by blast
      next
        assume "row \<in> set (features_from api (last_id rowid ?rows) rest)"
        from "2.IH"(3) [OF False Some refl this] later show ?thesis by blast
      qed
    qed
  qed
qed

text \<open>
  C7: the full-text table is declared with exactly the configured column names of all
  entries (each once, in double quotes), whatever the layers are; a record carries values
  only for the configured columns that its layer has, and these are columns of the table.
\<close>

theorem fts_columns_are_configured_union:
  "fts_columns (build_index api indexconfig) = Some (get_columns indexconfig)
   \<and> set (get_columns indexconfig)
       = double_quoted ` (\<Union>config\<in>set indexconfig. set (snd config))
   \<and> distinct (get_columns indexconfig)
   \<and> inj double_quoted
   \<and> (\<forall>row\<in>set (get_data l configfields rowid).
         fst ` set (rec_data row)
           = double_quoted ` (set (layer_fields l) \<inter> set configfields))
   \<and> (\<forall>row\<in>set (get_features api indexconfig).
         fst ` set (rec_data row) \<subseteq> set (get_columns indexconfig))"
proof (intro conjI ballI)
  show "fts_columns (build_index api indexconfig) = Some (get_columns indexconfig)"
    by (simp add: build_index_def)
  show "set (get_columns indexconfig)
        = double_quoted ` (\<Union>config\<in>set indexconfig. set (snd config))"
    by (rule set_get_columns)
  show "distinct (get_columns indexconfig)" by (simp add: get_columns_def)
  show "inj double_quoted" by (rule inj_double_quoted)
next
  fix row assume "row \<in> set (get_data l configfields rowid)"
  then show "fst ` set (rec_data row)
             = double_quoted ` (set (layer_fields l) \<inter> set configfields)"
    by (rule keys_get_data)
next
  fix row assume "row \<in> set (get_features api indexconfig)"
  then show "fst ` set (rec_data row) \<subseteq> set (get_columns indexconfig)"
    unfolding get_features_def by (rule keys_features_from)
qed

lemma assets_data:
  "get_data assets_layer [''type'', ''owner''] 0
   = [\<lparr>rec_id = 1, rec_layer = ''assets'', rec_fid = 10,
       rec_data = [(double_quoted ''type'', ''type: hydrant'')]\<rparr>,
      \<lparr>rec_id = 2, rec_layer = ''assets'', rec_fid = 11,
       rec_data = [(double_quoted ''type'', ''type: valve'')]\<rparr>]"
  by (simp add: assets_layer_def get_data_def matching_fields_def feature_data_def Let_def)

text \<open>C7 at the layer \<open>assets\<close>, which has no field \<open>owner\<close>: the table has the column, the
  records have no value for it.\<close>

theorem fts_columns_are_configured_union_witness:
  "\<lparr>rec_id = 1, rec_layer = ''assets'', rec_fid = 10,
     rec_data = [(double_quoted ''type'', ''type: hydrant'')]\<rparr>
     \<in> set (get_data assets_layer [''type'', ''owner''] 0)
   \<and> fst ` set [(double_quoted ''type'', ''type: hydrant'')]
       = double_quoted ` (set (layer_fields assets_layer) \<inter> set [''type'', ''owner''])
   \<and> \<lparr>rec_id = 1, rec_layer = ''assets'', rec_fid = 10,
       rec_data = [(double_quoted ''type'', ''type: hydrant'')]\<rparr>
     \<in> set (get_features one_layer [(''assets'', [''type'', ''owner''])])
   \<and> fst ` set [(double_quoted ''type'', ''type: hydrant'')]
       \<subseteq> set (get_columns [(''assets'', [''type'', ''owner''])])
   \<and> fts_columns (build_index one_layer [(''assets'', [''type'', ''owner''])])
       = Some [double_quoted ''type'', double_quoted ''owner'']"
proof -
  let ?row = "\<lparr>rec_id = 1, rec_layer = ''assets'', rec_fid = 10,
               rec_data = [(double_quoted ''type'', ''type: hydrant'')]\<rparr>"
  let ?cfg = "[(''assets'', [''type'', ''owner''])]"
  note inst = fts_columns_are_configured_union
    [of one_layer ?cfg assets_layer "[''type'', ''owner'']" 0]
  have a: "?row \<in> set (get_data assets_layer [''type'', ''owner''] 0)"
    by (simp add: assets_data)
  have b: "?row \<in> set (get_features one_layer ?cfg)"
    by (simp add: assets_rows)
  from inst a have c: "fst ` set (rec_data ?row)
      = double_quoted ` (set (layer_fields assets_layer) \<inter> set [''type'', ''owner''])"
    by blast
  from inst b have d: "fst ` set (rec_data ?row) \<subseteq> set (get_columns ?cfg)"
    by blast
  from inst have "fts_columns (build_index one_layer ?cfg) = Some (get_columns ?cfg)"
    by blast
  then have e: "fts_columns (build_index one_layer ?cfg)
      = Some [double_quoted ''type'', double_quoted ''owner'']"
    by (simp add: get_columns_def double_quoted_def)
  from c have c': "fst ` set [(double_quoted ''type'', ''type: hydrant'')]
      = double_quoted ` (set (layer_fields assets_layer) \<inter> set [''type'', ''owner''])"
    by simp
  from d have d': "fst ` set [(double_quoted ''type'', ''type: hydrant'')]
      \<subseteq> set (get_columns ?cfg)"
    by simp
  from a c' b d' e show ?thesis by (intro conjI)
qed

end
